theory Spec2Isabelle
  imports Main
begin

section \<open>Python values, exceptions and the outside world\<close>

text \<open>
  The two scripts \<^verbatim>\<open>simple-pdf-processor.py\<close> (class \<open>SimplePDFProcessor\<close>, prefix
  \<open>sp_\<close>) and \<^verbatim>\<open>langchain-pdf-rag.py\<close> (class \<open>AucklandCouncilPDFProcessor\<close>, prefix
  \<open>ac_\<close>) are embedded function by function. A Python \<open>str\<close> is a \<open>string\<close>, one list
  element per character; \<open>bytes\<close> are a list of numbers. Every exception the code can meet
  is a value of \<open>py_exn\<close>; a function that may let one escape returns \<open>py_exn + 'a\<close>.
\<close>

datatype py_exn =
    ImportError string
  | NameError string
  | AttributeError string
  | KeyError string
  | RequestException string
  | HTTPError nat
  | DecodeError string
  | OpenAIError string

text \<open>An instance attribute is either never assigned (reading it raises) or holds a value.\<close>

datatype 'a attr = Unset | Attr 'a

datatype json = JNull | JBool bool | JStr string | JObj "(string \<times> json) list"

text \<open>
  What \<open>print\<close> writes: a plain line, a line formatted from a message and a caught
  exception, or the text of \<open>json.dumps\<close> of a value.
\<close>

datatype out_item = Text string | Diag string py_exn | Json json

text \<open>Calls that leave the process, in the order they are made.\<close>

datatype call = HttpGet string | PdfLoad nat | LlmInvoke string | OpenAINew string

text \<open>The prompts sent to the completion service and the files decoded, among some calls.\<close>

fun prompts :: "call list \<Rightarrow> string list" where
  "prompts [] = []"
| "prompts (LlmInvoke prompt # cs) = prompt # prompts cs"
| "prompts (c # cs) = prompts cs"

fun decoded :: "call list \<Rightarrow> nat list" where
  "decoded [] = []"
| "decoded (PdfLoad path # cs) = path # decoded cs"
| "decoded (c # cs) = decoded cs"

record world =
  stdout :: "out_item list"
  tmp_files :: "(nat \<times> nat list) list"
  calls :: "call list"

text \<open>
  The environment the scripts run in: which optional packages can be imported, and what
  the network, the PDF decoder, the completion service and the (third-party) text splitter
  answer. \<open>http_get\<close> is \<open>requests.get(url, timeout=30)\<close>: a transport error or a
  status code with the body.
\<close>

record env =
  has_langchain_community :: bool
  has_langchain_openai :: bool
  has_PyPDF2 :: bool
  http_get :: "string \<Rightarrow> py_exn + nat \<times> nat list"
  pdf_load :: "nat list \<Rightarrow> py_exn + string list"
  openai_new :: "string \<Rightarrow> py_exn option"
  llm_invoke :: "string \<Rightarrow> py_exn + string"
  split_documents :: "nat \<Rightarrow> nat \<Rightarrow> string list \<Rightarrow> string list"
  faiss_from_documents :: "string list \<Rightarrow> py_exn + string list"
  retrieval_qa :: "string list \<Rightarrow> string \<Rightarrow> py_exn + string"

definition print :: "out_item \<Rightarrow> world \<Rightarrow> world" where
  "print x w = w\<lparr>stdout := stdout w @ [x]\<rparr>"

definition record_call :: "call \<Rightarrow> world \<Rightarrow> world" where
  "record_call c w = w\<lparr>calls := calls w @ [c]\<rparr>"

text \<open>
  \<open>requests.get\<close> followed by \<open>raise_for_status\<close>, which raises for a status from 400
  to 599.
\<close>

definition fetch :: "env \<Rightarrow> string \<Rightarrow> py_exn + nat list" where
  "fetch e url =
     (case http_get e url of
        Inl x \<Rightarrow> Inl x
      | Inr (status, content) \<Rightarrow>
          if 400 \<le> status \<and> status < 600 then Inl (HTTPError status) else Inr content)"

text \<open>
  \<open>tempfile.NamedTemporaryFile(delete=False)\<close> creates a file under a name no existing
  file has; the \<open>with\<close> block writes the content and closes it. \<open>os.unlink\<close> removes the
  file of that name.
\<close>

definition fresh_tmp :: "world \<Rightarrow> nat" where
  "fresh_tmp w = Suc (fold max (map fst (tmp_files w)) 0)"

definition tmp_create :: "nat list \<Rightarrow> world \<Rightarrow> nat \<times> world" where
  "tmp_create content w =
     (let path = fresh_tmp w in (path, w\<lparr>tmp_files := (path, content) # tmp_files w\<rparr>))"

definition unlink :: "nat \<Rightarrow> world \<Rightarrow> world" where
  "unlink path w = w\<lparr>tmp_files := filter (\<lambda>f. fst f \<noteq> path) (tmp_files w)\<rparr>"

text \<open>\<open>PyPDFLoader(path).load()\<close> reads the file at \<open>path\<close> and decodes it into pages.\<close>

definition load_file :: "env \<Rightarrow> nat \<Rightarrow> world \<Rightarrow> py_exn + string list" where
  "load_file e path w =
     (case map_of (tmp_files w) path of
        None \<Rightarrow> Inl (DecodeError ''no such file'')
      | Some content \<Rightarrow> pdf_load e content)"

text \<open>\<open>sep.join(xs)\<close>.\<close>

fun join :: "string \<Rightarrow> string list \<Rightarrow> string" where
  "join sep [] = []"
| "join sep [x] = x"
| "join sep (x # y # ys) = x @ sep @ join sep (y # ys)"

text \<open>
  A dict literal keeps, for a key written twice, the last value; \<open>k in d\<close> is
  \<open>dict_get d k \<noteq> None\<close> and \<open>d[k]\<close> is the value found.
\<close>

definition dict_get :: "('k \<times> 'v) list \<Rightarrow> 'k \<Rightarrow> 'v option" where
  "dict_get d k = map_of (rev d) k"

text \<open>Truthiness of an \<open>Optional[str]\<close>: \<open>None\<close> and the empty string are false.\<close>

definition truthy :: "string option \<Rightarrow> bool" where
  "truthy s = (case s of None \<Rightarrow> False | Some x \<Rightarrow> x \<noteq> [])"

section \<open>The zone registries\<close>

text \<open>\<open>SimplePDFProcessor.get_zone_pdf_urls\<close>.\<close>

definition sp_get_zone_pdf_urls :: "(string \<times> string) list" where
  "sp_get_zone_pdf_urls =
    [(''H1'',
      ''https://unitaryplan.aucklandcouncil.govt.nz/images/Auckland%20Unitary%20Plan%20Operative/Chapter%20H%20Zones/H1%20Residential%20-%20Large%20Lot%20Zone.pdf''),
     (''H2'',
      ''https://unitaryplan.aucklandcouncil.govt.nz/images/Auckland%20Unitary%20Plan%20Operative/Chapter%20H%20Zones/H2%20Residential%20-%20Rural%20and%20Coastal%20Settlement%20Zone.pdf''),
     (''H3'',
      ''https://unitaryplan.aucklandcouncil.govt.nz/images/Auckland%20Unitary%20Plan%20Operative/Chapter%20H%20Zones/H3%20Residential%20-%20Single%20House%20Zone.pdf''),
     (''H4'',
      ''https://unitaryplan.aucklandcouncil.govt.nz/images/Auckland%20Unitary%20Plan%20Operative/Chapter%20H%20Zones/H4%20Residential%20-%20Mixed%20Housing%20Suburban%20Zone.pdf''),
     (''H5'',
      ''https://unitaryplan.aucklandcouncil.govt.nz/images/Auckland%20Unitary%20Plan%20Operative/Chapter%20H%20Zones/H5%20Residential%20-%20Mixed%20Housing%20Urban%20Zone.pdf''),
     (''H6'',
      ''https://unitaryplan.aucklandcouncil.govt.nz/images/Auckland%20Unitary%20Plan%20Operative/Chapter%20H%20Zones/H6%20Residential%20-%20Terrace%20Housing%20and%20Apartment%20Buildings%20Zone.pdf''),
     (''H7'',
      ''https://unitaryplan.aucklandcouncil.govt.nz/images/Auckland%20Unitary%20Plan%20Operative/Chapter%20H%20Zones/H7%20Open%20Space%20zones.pdf''),
     (''H8'',
      ''https://unitaryplan.aucklandcouncil.govt.nz/images/Auckland%20Unitary%20Plan%20Operative/Chapter%20H%20Zones/H8%20Business%20-%20City%20Centre%20Zone.pdf''),
     (''H9'',
      ''https://unitaryplan.aucklandcouncil.govt.nz/images/Auckland%20Unitary%20Plan%20Operative/Chapter%20H%20Zones/H9%20Business%20-%20Metropolitan%20Centre%20Zone.pdf''),
     (''H10'',
      ''https://unitaryplan.aucklandcouncil.govt.nz/images/Auckland%20Unitary%20Plan%20Operative/Chapter%20H%20Zones/H10%20Business%20-%20Town%20Centre%20Zone.pdf''),
     (''H11'',
      ''https://unitaryplan.aucklandcouncil.govt.nz/images/Auckland%20Unitary%20Plan%20Operative/Chapter%20H%20Zones/H11%20Business%20-%20Local%20Centre%20Zone.pdf''),
     (''H12'',
      ''https://unitaryplan.aucklandcouncil.govt.nz/images/Auckland%20Unitary%20Plan%20Operative/Chapter%20H%20Zones/H12%20Business%20-%20Neighbourhood%20Centre%20Zone.pdf''),
     (''H13'',
      ''https://unitaryplan.aucklandcouncil.govt.nz/images/Auckland%20Unitary%20Plan%20Operative/Chapter%20H%20Zones/H13%20Business%20-%20Mixed%20Use%20Zone.pdf''),
     (''H14'',
      ''https://unitaryplan.aucklandcouncil.govt.nz/images/Auckland%20Unitary%20Plan%20Operative/Chapter%20H%20Zones/H14%20Business%20-%20General%20Business%20Zone.pdf''),
     (''H15'',
      ''https://unitaryplan.aucklandcouncil.govt.nz/images/Auckland%20Unitary%20Plan%20Operative/Chapter%20H%20Zones/H15%20Business%20-%20Business%20Park%20Zone.pdf''),
     (''H16'',
      ''https://unitaryplan.aucklandcouncil.govt.nz/images/Auckland%20Unitary%20Plan%20Operative/Chapter%20H%20Zones/H16%20Business%20-%20Heavy%20Industry%20Zone.pdf''),
     (''H17'',
      ''https://unitaryplan.aucklandcouncil.govt.nz/images/Auckland%20Unitary%20Plan%20Operative/Chapter%20H%20Zones/H17%20Business%20-%20Light%20Industry%20Zone.pdf''),
     (''H18'',
      ''https://unitaryplan.aucklandcouncil.govt.nz/images/Auckland%20Unitary%20Plan%20Operative/Chapter%20H%20Zones/H18%20Future%20Urban%20Zone.pdf''),
     (''H19'',
      ''https://unitaryplan.aucklandcouncil.govt.nz/images/Auckland%20Unitary%20Plan%20Operative/Chapter%20H%20Zones/H19%20Rural%20zones.pdf''),
     (''D17'',
      ''https://unitaryplan.aucklandcouncil.govt.nz/images/Auckland%20Unitary%20Plan%20Operative/Chapter%20D%20Overlays/3.%20Built%20Heritage%20and%20Character/D17%20Historic%20Heritage%20Overlay.pdf''),
     (''D18'',
      ''https://unitaryplan.aucklandcouncil.govt.nz/images/Auckland%20Unitary%20Plan%20Operative/Chapter%20D%20Overlays/3.%20Built%20Heritage%20and%20Character/D18%20Special%20Character%20Areas%20Overlay%20-%20Residential%20and%20Business.pdf''),
     (''D19'',
      ''https://unitaryplan.aucklandcouncil.govt.nz/images/Auckland%20Unitary%20Plan%20Operative/Chapter%20D%20Overlays/3.%20Built%20Heritage%20and%20Character/D19%20Auckland%20War%20Memorial%20Museum%20Viewshaft%20Overlay.pdf''),
     (''D20A'',
      ''https://unitaryplan.aucklandcouncil.govt.nz/images/Auckland%20Unitary%20Plan%20Operative/Chapter%20D%20Overlays/3.%20Built%20Heritage%20and%20Character/D20A%20Stockade%20Hill%20Viewshaft%20Overlay.pdf'')]"

text \<open>\<open>AucklandCouncilPDFProcessor.get_zone_pdf_urls\<close>.\<close>

definition ac_get_zone_pdf_urls :: "(string \<times> string) list" where
  "ac_get_zone_pdf_urls =
    [(''H3'',
      ''https://unitaryplan.aucklandcouncil.govt.nz/images/Auckland%20Unitary%20Plan%20Operative/Chapter%20H%20Zones/H3%20Residential%20-%20Single%20House%20Zone.pdf''),
     (''H4'',
      ''https://unitaryplan.aucklandcouncil.govt.nz/images/Auckland%20Unitary%20Plan%20Operative/Chapter%20H%20Zones/H4%20Residential%20-%20Mixed%20Housing%20Suburban%20Zone.pdf''),
     (''H5'',
      ''https://unitaryplan.aucklandcouncil.govt.nz/images/Auckland%20Unitary%20Plan%20Operative/Chapter%20H%20Zones/H5%20Residential%20-%20Mixed%20Housing%20Urban%20Zone.pdf''),
     (''H6'',
      ''https://unitaryplan.aucklandcouncil.govt.nz/images/Auckland%20Unitary%20Plan%20Operative/Chapter%20H%20Zones/H6%20Residential%20-%20Terrace%20Housing%20and%20Apartment%20Buildings%20Zone.pdf''),
     (''H7'',
      ''https://unitaryplan.aucklandcouncil.govt.nz/images/Auckland%20Unitary%20Plan%20Operative/Chapter%20H%20Zones/H7%20Residential%20-%20Apartment%20Buildings%20Zone.pdf''),
     (''H8'',
      ''https://unitaryplan.aucklandcouncil.govt.nz/images/Auckland%20Unitary%20Plan%20Operative/Chapter%20H%20Zones/H8%20Residential%20-%20Large%20Lot%20Zone.pdf''),
     (''H9'',
      ''https://unitaryplan.aucklandcouncil.govt.nz/images/Auckland%20Unitary%20Plan%20Operative/Chapter%20H%20Zones/H9%20Residential%20-%20Rural%20and%20Coastal%20Settlement%20Zone.pdf''),
     (''I1'',
      ''https://unitaryplan.aucklandcouncil.govt.nz/images/Auckland%20Unitary%20Plan%20Operative/Chapter%20I%20Zones/I1%20Business%20-%20City%20Centre%20Zone.pdf''),
     (''I2'',
      ''https://unitaryplan.aucklandcouncil.govt.nz/images/Auckland%20Unitary%20Plan%20Operative/Chapter%20I%20Zones/I2%20Business%20-%20Metropolitan%20Centre%20Zone.pdf''),
     (''I3'',
      ''https://unitaryplan.aucklandcouncil.govt.nz/images/Auckland%20Unitary%20Plan%20Operative/Chapter%20I%20Zones/I3%20Business%20-%20Town%20Centre%20Zone.pdf''),
     (''I4'',
      ''https://unitaryplan.aucklandcouncil.govt.nz/images/Auckland%20Unitary%20Plan%20Operative/Chapter%20I%20Zones/I4%20Business%20-%20Local%20Centre%20Zone.pdf'')]"


section \<open>SimplePDFProcessor (truncation strategy)\<close>

text \<open>
  The module's \<open>try: import\<close> block binds \<open>PyPDFLoader\<close> and \<open>OpenAI\<close> one after the
  other; \<open>LANGCHAIN_AVAILABLE\<close> is true when both imports succeeded.
\<close>

definition sp_LANGCHAIN_AVAILABLE :: "env \<Rightarrow> bool" where
  "sp_LANGCHAIN_AVAILABLE e = (has_langchain_community e \<and> has_langchain_openai e)"

definition sp_module_names :: "env \<Rightarrow> string list" where
  "sp_module_names e =
     [''requests'', ''tempfile'', ''os'', ''json'', ''sys'', ''re'', ''Dict'', ''Optional'']
     @ (if has_langchain_community e
        then ''PyPDFLoader'' # (if has_langchain_openai e then [''OpenAI''] else [])
        else [])
     @ [''LANGCHAIN_AVAILABLE'', ''SimplePDFProcessor'', ''main'']"

definition sp_global :: "env \<Rightarrow> string \<Rightarrow> py_exn + unit" where
  "sp_global e n = (if n \<in> set (sp_module_names e) then Inr () else Inl (NameError n))"

text \<open>The \<open>llm\<close> attribute is \<open>None\<close> or an \<open>OpenAI\<close> client, named here by its key.\<close>

record SimplePDFProcessor =
  sp_available :: bool
  sp_llm :: "string option"

definition sp_init :: "env \<Rightarrow> string option \<Rightarrow> world \<Rightarrow> SimplePDFProcessor \<times> world" where
  "sp_init e openai_api_key w =
     (let p = \<lparr>sp_available = sp_LANGCHAIN_AVAILABLE e, sp_llm = None\<rparr> in
      case openai_api_key of
        None \<Rightarrow> (p, w)
      | Some k \<Rightarrow>
          if sp_available p \<and> k \<noteq> [] then
            (case sp_global e ''OpenAI'' of
               Inl x \<Rightarrow> (p, print (Diag ''Error initializing OpenAI: '' x) w)
             | Inr _ \<Rightarrow>
                 let w1 = record_call (OpenAINew k) w in
                 (case openai_new e k of
                    Some x \<Rightarrow> (p, print (Diag ''Error initializing OpenAI: '' x) w1)
                  | None \<Rightarrow> (p\<lparr>sp_llm := Some k\<rparr>, w1)))
          else (p, w))"

text \<open>The body of the \<open>try\<close> in \<open>extract_pdf_text\<close> (lines 74 to 91).\<close>

definition sp_extract_body :: "env \<Rightarrow> string \<Rightarrow> world \<Rightarrow> (py_exn + string) \<times> world" where
  "sp_extract_body e pdf_url w =
     (let w1 = record_call (HttpGet pdf_url) w in
      case fetch e pdf_url of
        Inl x \<Rightarrow> (Inl x, w1)
      | Inr content \<Rightarrow>
          let (tmp_file_path, w2) = tmp_create content w1 in
          (case sp_global e ''PyPDFLoader'' of
             Inl x \<Rightarrow> (Inl x, w2)
           | Inr _ \<Rightarrow>
               let w3 = record_call (PdfLoad tmp_file_path) w2 in
               (case load_file e tmp_file_path w3 of
                  Inl x \<Rightarrow> (Inl x, w3)
                | Inr documents \<Rightarrow>
                    let w4 = unlink tmp_file_path w3 in
                    (Inr (join ''\<newline>'' documents), w4))))"

definition sp_extract_pdf_text ::
  "env \<Rightarrow> SimplePDFProcessor \<Rightarrow> string \<Rightarrow> world \<Rightarrow> string option \<times> world" where
  "sp_extract_pdf_text e p pdf_url w =
     (if \<not> sp_available p then (None, w)
      else case sp_extract_body e pdf_url w of
             (Inl x, w1) \<Rightarrow> (None, print (Diag ''Error extracting PDF text: '' x) w1)
           | (Inr full_text, w1) \<Rightarrow> (Some full_text, w1))"

definition sp_prompt :: "string \<Rightarrow> string \<Rightarrow> string \<Rightarrow> string" where
  "sp_prompt zone_code query pdf_text =
     ''\<newline>Based on the following Auckland Council planning document for zone ''
     @ zone_code @ '', please answer this question: '' @ query
     @ ''\<newline>\<newline>Planning Document Content:\<newline>'' @ pdf_text
     @ ''\<newline>\<newline>Please provide specific information from the document, including exact measurements, percentages, and requirements where available. Focus on building rules, height restrictions, site coverage, setbacks, and consent requirements.\<newline>''"

definition sp_query_zone_with_ai ::
  "env \<Rightarrow> SimplePDFProcessor \<Rightarrow> string \<Rightarrow> string \<Rightarrow> world \<Rightarrow> string option \<times> world" where
  "sp_query_zone_with_ai e p zone_code query w =
     (case sp_llm p of
        None \<Rightarrow> (None, w)
      | Some llm \<Rightarrow>
          (case dict_get sp_get_zone_pdf_urls zone_code of
             None \<Rightarrow> (None, w)
           | Some url \<Rightarrow>
               (case sp_extract_pdf_text e p url w of
                  (None, w1) \<Rightarrow> (None, w1)
                | (Some full_text, w1) \<Rightarrow>
                    if full_text = [] then (None, w1)
                    else
                      let pdf_text = take 8000 full_text;
                          prompt = sp_prompt zone_code query pdf_text;
                          w2 = record_call (LlmInvoke prompt) w1
                      in (case llm_invoke e prompt of
                            Inl x \<Rightarrow> (None, print (Diag ''Error querying AI: '' x) w2)
                          | Inr response \<Rightarrow> (Some response, w2)))))"

text \<open>The response dict of \<open>main\<close> (lines 170 to 176).\<close>

definition sp_response :: "string \<Rightarrow> string \<Rightarrow> string option \<Rightarrow> json" where
  "sp_response zone_code query result =
     JObj [(''success'', JBool (result \<noteq> None)),
           (''zone_code'', JStr zone_code),
           (''query'', JStr query),
           (''result'', case result of None \<Rightarrow> JNull | Some r \<Rightarrow> JStr r),
           (''error'', if result = None then JStr ''Failed to process query'' else JNull)]"

text \<open>
  \<open>main\<close>: \<open>argv\<close> is \<open>sys.argv\<close>, \<open>environ_key\<close> is
  \<open>os.environ.get("OPENAI_API_KEY")\<close>; the result is the exit status.
\<close>

definition sp_main :: "env \<Rightarrow> string list \<Rightarrow> string option \<Rightarrow> world \<Rightarrow> nat \<times> world" where
  "sp_main e argv environ_key w =
     (if length argv < 3 then
        (1, print (Text ''Usage: python simple-pdf-processor.py <zone_code> <query>'') w)
      else
        let zone_code = argv ! 1;
            query = join '' '' (drop 2 argv)
        in if \<not> truthy environ_key then
             (1, print (Json (JObj [(''success'', JBool False),
                    (''error'', JStr ''OPENAI_API_KEY environment variable not set'')])) w)
           else
             let (processor, w1) = sp_init e environ_key w in
             if \<not> sp_available processor then
               (1, print (Json (JObj [(''success'', JBool False),
                      (''error'', JStr ''LangChain dependencies not available'')])) w1)
             else
               let (result, w2) = sp_query_zone_with_ai e processor zone_code query w1
               in (0, print (Json (sp_response zone_code query result)) w2))"

section \<open>AucklandCouncilPDFProcessor (retrieval strategy)\<close>

text \<open>
  The names the module binds: its imports (three of them inside \<open>try\<close>, bound one after
  the other until one fails), \<open>LANGCHAIN_AVAILABLE\<close>, the class and \<open>main\<close>. Reading any
  other global name raises \<open>NameError\<close>.
\<close>

definition ac_module_names :: "env \<Rightarrow> string list" where
  "ac_module_names e =
     [''requests'', ''tempfile'', ''os'', ''json'', ''sys'', ''re'', ''List'', ''Dict'', ''Optional'']
     @ (if has_langchain_community e
        then ''PyPDFLoader'' #
             (if has_langchain_openai e
              then ''OpenAI'' # (if has_PyPDF2 e then [''PyPDF2''] else [])
              else [])
        else [])
     @ [''LANGCHAIN_AVAILABLE'', ''AucklandCouncilPDFProcessor'', ''main'']"

definition ac_LANGCHAIN_AVAILABLE :: "env \<Rightarrow> bool" where
  "ac_LANGCHAIN_AVAILABLE e =
     (has_langchain_community e \<and> has_langchain_openai e \<and> has_PyPDF2 e)"

text \<open>The handler of the import block prints the \<open>ImportError\<close> of the first failing import.\<close>

definition ac_import :: "env \<Rightarrow> world \<Rightarrow> world" where
  "ac_import e w =
     (if \<not> has_langchain_community e then
        print (Diag ''LangChain dependencies not available: '' (ImportError ''langchain_community'')) w
      else if \<not> has_langchain_openai e then
        print (Diag ''LangChain dependencies not available: '' (ImportError ''langchain_openai'')) w
      else if \<not> has_PyPDF2 e then
        print (Diag ''LangChain dependencies not available: '' (ImportError ''PyPDF2'')) w
      else w)"

definition ac_global :: "env \<Rightarrow> string \<Rightarrow> py_exn + unit" where
  "ac_global e n = (if n \<in> set (ac_module_names e) then Inr () else Inl (NameError n))"

datatype splitter = Splitter nat nat

text \<open>
  The attributes the class's methods read. Only \<open>__init__\<close> assigns attributes, and it
  assigns neither \<open>vector_stores\<close> nor \<open>embeddings\<close>. A vector store is named by the
  chunks it indexes.
\<close>

record AucklandCouncilPDFProcessor =
  ac_available :: bool
  ac_text_splitter :: "splitter attr"
  ac_pdf_content :: "(string \<times> string) list attr"
  ac_llm :: "string option attr"
  ac_vector_stores :: "(string \<times> string list) list attr"
  ac_embeddings :: "unit attr"

text \<open>The body of the \<open>try\<close> in \<open>__init__\<close> (lines 36 to 49).\<close>

definition ac_init_body ::
  "env \<Rightarrow> string option \<Rightarrow> AucklandCouncilPDFProcessor \<Rightarrow> world
   \<Rightarrow> (py_exn + unit) \<times> AucklandCouncilPDFProcessor \<times> world" where
  "ac_init_body e openai_api_key p w =
     (case ac_global e ''RecursiveCharacterTextSplitter'' of
        Inl x \<Rightarrow> (Inl x, p, w)
      | Inr _ \<Rightarrow>
          let p1 = p\<lparr>ac_text_splitter := Attr (Splitter 1000 200)\<rparr>;
              p2 = p1\<lparr>ac_pdf_content := Attr []\<rparr>
          in case openai_api_key of
               None \<Rightarrow> (Inr (), p2\<lparr>ac_llm := Attr None\<rparr>, w)
             | Some k \<Rightarrow>
                 if k \<noteq> [] then
                   (case ac_global e ''OpenAI'' of
                      Inl x \<Rightarrow> (Inl x, p2, w)
                    | Inr _ \<Rightarrow>
                        let w1 = record_call (OpenAINew k) w in
                        (case openai_new e k of
                           Some x \<Rightarrow> (Inl x, p2, w1)
                         | None \<Rightarrow> (Inr (), p2\<lparr>ac_llm := Attr (Some k)\<rparr>, w1)))
                 else (Inr (), p2\<lparr>ac_llm := Attr None\<rparr>, w))"

definition ac_init ::
  "env \<Rightarrow> string option \<Rightarrow> world \<Rightarrow> (py_exn + AucklandCouncilPDFProcessor) \<times> world" where
  "ac_init e openai_api_key w =
     (case ac_global e ''PyPDFLoader'' of
        Inl x \<Rightarrow> (Inl x, w)
      | Inr _ \<Rightarrow>
          let p = \<lparr>ac_available = True, ac_text_splitter = Unset, ac_pdf_content = Unset,
                   ac_llm = Unset, ac_vector_stores = Unset, ac_embeddings = Unset\<rparr>
          in if \<not> ac_available p then
               (Inr p, print (Text ''LangChain not available, using basic processing'') w)
             else
               (case ac_init_body e openai_api_key p w of
                  (Inl x, p1, w1) \<Rightarrow>
                    (Inr (p1\<lparr>ac_available := False\<rparr>),
                     print (Diag ''Error initializing LangChain components: '' x) w1)
                | (Inr _, p1, w1) \<Rightarrow> (Inr p1, w1)))"

text \<open>The body of the \<open>try\<close> in \<open>load_pdf_from_url\<close> (lines 81 to 99).\<close>

definition ac_load_body ::
  "env \<Rightarrow> AucklandCouncilPDFProcessor \<Rightarrow> string \<Rightarrow> world \<Rightarrow> (py_exn + string list) \<times> world" where
  "ac_load_body e p pdf_url w =
     (let w1 = record_call (HttpGet pdf_url) w in
      case fetch e pdf_url of
        Inl x \<Rightarrow> (Inl x, w1)
      | Inr content \<Rightarrow>
          let (tmp_file_path, w2) = tmp_create content w1 in
          (case ac_global e ''PyPDFLoader'' of
             Inl x \<Rightarrow> (Inl x, w2)
           | Inr _ \<Rightarrow>
               let w3 = record_call (PdfLoad tmp_file_path) w2 in
               (case load_file e tmp_file_path w3 of
                  Inl x \<Rightarrow> (Inl x, w3)
                | Inr documents \<Rightarrow>
                    let w4 = unlink tmp_file_path w3 in
                    (case ac_text_splitter p of
                       Unset \<Rightarrow> (Inl (AttributeError ''text_splitter''), w4)
                     | Attr (Splitter chunk_size chunk_overlap) \<Rightarrow>
                         (Inr (split_documents e chunk_size chunk_overlap documents), w4)))))"

definition ac_load_pdf_from_url ::
  "env \<Rightarrow> AucklandCouncilPDFProcessor \<Rightarrow> string \<Rightarrow> world \<Rightarrow> string list \<times> world" where
  "ac_load_pdf_from_url e p pdf_url w =
     (if \<not> ac_available p then ([], w)
      else case ac_load_body e p pdf_url w of
             (Inl x, w1) \<Rightarrow>
               ([], print (Diag (''Error loading PDF from '' @ pdf_url @ '': '') x) w1)
           | (Inr chunks, w1) \<Rightarrow> (chunks, w1))"

text \<open>Decimal text of a number, for the one message that prints \<open>len(documents)\<close>.\<close>

fun str_nat :: "nat \<Rightarrow> string" where
  "str_nat n =
     (if n < 10 then [char_of (48 + n)] else str_nat (n div 10) @ [char_of (48 + n mod 10)])"

text \<open>The \<open>try\<close> of \<open>create_vector_store\<close> with its handler (lines 127 to 135).\<close>

definition ac_build_index ::
  "env \<Rightarrow> AucklandCouncilPDFProcessor \<Rightarrow> string \<Rightarrow> string list \<Rightarrow> world
   \<Rightarrow> bool \<times> AucklandCouncilPDFProcessor \<times> world" where
  "ac_build_index e p zone_code documents w =
     (let failed = (\<lambda>x. (False, p,
            print (Diag (''Error creating vector store for zone '' @ zone_code @ '': '') x) w))
      in case ac_global e ''FAISS'' of
           Inl x \<Rightarrow> failed x
         | Inr _ \<Rightarrow>
             (case ac_embeddings p of
                Unset \<Rightarrow> failed (AttributeError ''embeddings'')
              | Attr _ \<Rightarrow>
                  (case faiss_from_documents e documents of
                     Inl x \<Rightarrow> failed x
                   | Inr vector_store \<Rightarrow>
                       (case ac_vector_stores p of
                          Unset \<Rightarrow> failed (AttributeError ''vector_stores'')
                        | Attr vs \<Rightarrow>
                            (True, p\<lparr>ac_vector_stores := Attr (vs @ [(zone_code, vector_store)])\<rparr>,
                             print (Text (''Vector store created for zone '' @ zone_code
                                          @ '' with '' @ str_nat (length documents) @ '' chunks'')) w)))))"

definition ac_create_vector_store ::
  "env \<Rightarrow> AucklandCouncilPDFProcessor \<Rightarrow> string \<Rightarrow> world
   \<Rightarrow> (py_exn + bool) \<times> AucklandCouncilPDFProcessor \<times> world" where
  "ac_create_vector_store e p zone_code w =
     (if \<not> ac_available p then (Inr False, p, w)
      else case ac_vector_stores p of
             Unset \<Rightarrow> (Inl (AttributeError ''vector_stores''), p, w)
           | Attr vs \<Rightarrow>
               if dict_get vs zone_code \<noteq> None then (Inr True, p, w)
               else
                 (case dict_get ac_get_zone_pdf_urls zone_code of
                    None \<Rightarrow> (Inr False, p, w)
                  | Some url \<Rightarrow>
                      let w1 = print (Text (''Creating vector store for zone '' @ zone_code @ ''...'')) w;
                          (documents, w2) = ac_load_pdf_from_url e p url w1
                      in if documents = [] then (Inr False, p, w2)
                         else let (ok, p1, w3) = ac_build_index e p zone_code documents w2
                              in (Inr ok, p1, w3)))"

text \<open>The final \<open>try\<close> of \<open>query_zone_planning_rules\<close> with its handler (lines 148 to 163).\<close>

definition ac_run_chain ::
  "env \<Rightarrow> AucklandCouncilPDFProcessor \<Rightarrow> string \<Rightarrow> string \<Rightarrow> world \<Rightarrow> string option \<times> world" where
  "ac_run_chain e p zone_code query w =
     (let failed = (\<lambda>x. (None, print (Diag (''Error querying zone '' @ zone_code @ '': '') x) w))
      in case ac_global e ''RetrievalQA'' of
           Inl x \<Rightarrow> failed x
         | Inr _ \<Rightarrow>
             (case ac_llm p of
                Unset \<Rightarrow> failed (AttributeError ''llm'')
              | Attr llm \<Rightarrow>
                  (case ac_vector_stores p of
                     Unset \<Rightarrow> failed (AttributeError ''vector_stores'')
                   | Attr vs \<Rightarrow>
                       (case dict_get vs zone_code of
                          None \<Rightarrow> failed (KeyError zone_code)
                        | Some store \<Rightarrow>
                            (case retrieval_qa e store query of
                               Inl x \<Rightarrow> failed x
                             | Inr result \<Rightarrow> (Some result, w))))))"

definition ac_query_zone_planning_rules ::
  "env \<Rightarrow> AucklandCouncilPDFProcessor \<Rightarrow> string \<Rightarrow> string \<Rightarrow> world
   \<Rightarrow> (py_exn + string option) \<times> AucklandCouncilPDFProcessor \<times> world" where
  "ac_query_zone_planning_rules e p zone_code query w =
     (if \<not> ac_available p then (Inr None, p, w)
      else case ac_llm p of
             Unset \<Rightarrow> (Inl (AttributeError ''llm''), p, w)
           | Attr None \<Rightarrow> (Inr None, p, w)
           | Attr (Some llm) \<Rightarrow>
               (case ac_vector_stores p of
                  Unset \<Rightarrow> (Inl (AttributeError ''vector_stores''), p, w)
                | Attr vs \<Rightarrow>
                    if dict_get vs zone_code = None then
                      (case ac_create_vector_store e p zone_code w of
                         (Inl x, p1, w1) \<Rightarrow> (Inl x, p1, w1)
                       | (Inr created, p1, w1) \<Rightarrow>
                           if \<not> created then (Inr None, p1, w1)
                           else let (r, w2) = ac_run_chain e p1 zone_code query w1
                                in (Inr r, p1, w2))
                    else let (r, w1) = ac_run_chain e p zone_code query w
                         in (Inr r, p, w1)))"

text \<open>The two response dicts of \<open>main\<close> (lines 215 to 228).\<close>

definition ac_response :: "string \<Rightarrow> string \<Rightarrow> string option \<Rightarrow> json" where
  "ac_response zone_code query result =
     (if truthy result then
        JObj [(''success'', JBool True),
              (''zone_code'', JStr zone_code),
              (''query'', JStr query),
              (''result'', case result of None \<Rightarrow> JNull | Some r \<Rightarrow> JStr r)]
      else
        JObj [(''success'', JBool False),
              (''zone_code'', JStr zone_code),
              (''query'', JStr query),
              (''error'', JStr ''Failed to process query'')])"

text \<open>
  \<open>main\<close>, run after the module's import block; an exception that escapes ends the
  process with a traceback.
\<close>

definition ac_main ::
  "env \<Rightarrow> string list \<Rightarrow> string option \<Rightarrow> world \<Rightarrow> (py_exn + nat) \<times> world" where
  "ac_main e argv environ_key w =
     (if length argv < 3 then
        (Inr 1, print (Text ''Usage: python langchain-pdf-rag.py <zone_code> <query>'') w)
      else
        let zone_code = argv ! 1;
            query = join '' '' (drop 2 argv)
        in if \<not> truthy environ_key then
             (Inr 1, print (Text ''Error: OPENAI_API_KEY environment variable not set'') w)
           else
             (case ac_init e environ_key w of
                (Inl x, w1) \<Rightarrow> (Inl x, w1)
              | (Inr processor, w1) \<Rightarrow>
                  if \<not> ac_available processor then
                    (Inr 1, print (Text ''Error: LangChain dependencies not available'') w1)
                  else
                    (case ac_query_zone_planning_rules e processor zone_code query w1 of
                       (Inl x, p1, w2) \<Rightarrow> (Inl x, w2)
                     | (Inr result, p1, w2) \<Rightarrow>
                         (Inr 0, print (Json (ac_response zone_code query result)) w2))))"

text \<open>The keys of a JSON object and the value under a key.\<close>

fun json_keys :: "json \<Rightarrow> string list" where
  "json_keys (JObj kvs) = map fst kvs"
| "json_keys _ = []"

fun json_get :: "json \<Rightarrow> string \<Rightarrow> json option" where
  "json_get (JObj kvs) k = map_of kvs k"
| "json_get _ k = None"

section \<open>Concrete environments\<close>

text \<open>
  An environment with every package installed, a server that answers every URL with
  status 200 and four bytes, a decoder that finds one page, and a completion service that
  answers every prompt.
\<close>

definition env_ok :: env where
  "env_ok =
     \<lparr>has_langchain_community = True, has_langchain_openai = True, has_PyPDF2 = True,
      http_get = (\<lambda>url. Inr (200, [37, 80, 68, 70])),
      pdf_load = (\<lambda>content. Inr [''Maximum height: 8 metres'']),
      openai_new = (\<lambda>k. None),
      llm_invoke = (\<lambda>prompt. Inr ''8 metres''),
      split_documents = (\<lambda>chunk_size chunk_overlap documents. documents),
      faiss_from_documents = (\<lambda>documents. Inr documents),
      retrieval_qa = (\<lambda>store query. Inr ''8 metres'')\<rparr>"

text \<open>The same, with a decoder that rejects the bytes.\<close>

definition env_decode_fails :: env where
  "env_decode_fails = env_ok\<lparr>pdf_load := (\<lambda>content. Inl (DecodeError ''not a PDF''))\<rparr>"

text \<open>The same, with a server that answers 404.\<close>

definition env_http_404 :: env where
  "env_http_404 = env_ok\<lparr>http_get := (\<lambda>url. Inr (404, []))\<rparr>"

text \<open>The same, with a decoder that finds no page.\<close>

definition env_no_pages :: env where
  "env_no_pages = env_ok\<lparr>pdf_load := (\<lambda>content. Inr [])\<rparr>"

text \<open>The same, with \<open>langchain_community\<close> not installed.\<close>

definition env_no_langchain :: env where
  "env_no_langchain = env_ok\<lparr>has_langchain_community := False\<rparr>"

definition world0 :: world where
  "world0 = \<lparr>stdout = [], tmp_files = [], calls = []\<rparr>"

text \<open>A truncation processor as \<open>sp_init\<close> leaves it when everything is installed.\<close>

definition sp_ready :: SimplePDFProcessor where
  "sp_ready = \<lparr>sp_available = True, sp_llm = Some ''sk-test''\<rparr>"

text \<open>
  The retrieval processor as \<open>ac_init\<close> leaves it, and the one its methods expect:
  every attribute assigned, no zone indexed yet.
\<close>

definition ac_constructed :: AucklandCouncilPDFProcessor where
  "ac_constructed =
     \<lparr>ac_available = False, ac_text_splitter = Unset, ac_pdf_content = Unset,
      ac_llm = Unset, ac_vector_stores = Unset, ac_embeddings = Unset\<rparr>"

definition ac_intended :: AucklandCouncilPDFProcessor where
  "ac_intended =
     \<lparr>ac_available = True, ac_text_splitter = Attr (Splitter 1000 200),
      ac_pdf_content = Attr [], ac_llm = Attr (Some ''sk-test''),
      ac_vector_stores = Attr [], ac_embeddings = Attr ()\<rparr>"

section \<open>Auxiliary facts\<close>

lemma fold_max_ge: "m \<le> fold max xs (m::nat)"
  by (induction xs arbitrary: m) (auto intro: order_trans[OF max.cobounded2])

lemma fold_max_mem: "x \<in> set xs \<Longrightarrow> x \<le> fold max xs (m::nat)"
proof (induction xs arbitrary: m)
  case Nil
  then show ?case by simp
next
  case (Cons y ys)
  show ?case
  proof (cases "x = y")
    case True
    have "max y m \<le> fold max ys (max y m)" by (rule fold_max_ge)
    then show ?thesis using True by simp
  next
    case False
    then show ?thesis using Cons by simp
  qed
qed

lemma fresh_tmp_new: "f \<in> set (tmp_files w) \<Longrightarrow> fst f \<noteq> fresh_tmp w"
proof -
  assume "f \<in> set (tmp_files w)"
  then have "fst f \<in> set (map fst (tmp_files w))" by simp
  then have "fst f \<le> fold max (map fst (tmp_files w)) 0" by (rule fold_max_mem)
  then show ?thesis by (simp add: fresh_tmp_def)
qed

lemma filter_fresh: "filter (\<lambda>f. fst f \<noteq> fresh_tmp w) (tmp_files w) = tmp_files w"
  by (rule filter_True) (simp add: fresh_tmp_new)

lemma sp_extract_body_fetch_fails:
  "fetch e url = Inl x \<Longrightarrow> sp_extract_body e url w = (Inl x, record_call (HttpGet url) w)"
  by (simp add: sp_extract_body_def)

lemma sp_extract_body_decode_fails:
  "fetch e url = Inr content \<Longrightarrow> has_langchain_community e \<Longrightarrow> pdf_load e content = Inl x \<Longrightarrow>
   sp_extract_body e url w =
     (Inl x, w\<lparr>tmp_files := (fresh_tmp w, content) # tmp_files w,
               calls := calls w @ [HttpGet url, PdfLoad (fresh_tmp w)]\<rparr>)"
  by (simp add: sp_extract_body_def tmp_create_def record_call_def load_file_def
      sp_global_def sp_module_names_def fresh_tmp_def)

lemma sp_extract_body_ok:
  "fetch e url = Inr content \<Longrightarrow> has_langchain_community e \<Longrightarrow> pdf_load e content = Inr pages \<Longrightarrow>
   sp_extract_body e url w =
     (Inr (join ''\<newline>'' pages), w\<lparr>calls := calls w @ [HttpGet url, PdfLoad (fresh_tmp w)]\<rparr>)"
  using filter_fresh[of w]
  by (simp add: sp_extract_body_def tmp_create_def record_call_def load_file_def
      sp_global_def sp_module_names_def unlink_def fresh_tmp_def)


lemma sp_keys_distinct: "distinct (map fst sp_get_zone_pdf_urls)"
  by (simp add: sp_get_zone_pdf_urls_def)

lemma ac_keys_distinct: "distinct (map fst ac_get_zone_pdf_urls)"
  by (simp add: ac_get_zone_pdf_urls_def)

lemma dict_get_member:
  "distinct (map fst d) \<Longrightarrow> (k, v) \<in> set d \<Longrightarrow> dict_get d k = Some v"
  by (simp add: dict_get_def rev_map[symmetric])

lemma ac_global_unbound:
  "ac_global e ''RecursiveCharacterTextSplitter'' = Inl (NameError ''RecursiveCharacterTextSplitter'')"
  "ac_global e ''FAISS'' = Inl (NameError ''FAISS'')"
  "ac_global e ''RetrievalQA'' = Inl (NameError ''RetrievalQA'')"
  by (simp_all add: ac_global_def ac_module_names_def)

section \<open>The zone registries are not the same\<close>

text \<open>
  C10. The two \<open>get_zone_pdf_urls\<close> mappings are not extensionally equal: the codes H7,
  H8 and H9 resolve in both but to different URLs, and the codes D18 and H19 resolve in
  \<open>SimplePDFProcessor\<close>'s mapping and not in \<open>AucklandCouncilPDFProcessor\<close>'s.
\<close>

theorem registries_differ:
  "(\<exists>u v. dict_get sp_get_zone_pdf_urls ''H7'' = Some u
          \<and> dict_get ac_get_zone_pdf_urls ''H7'' = Some v \<and> u \<noteq> v)
   \<and> (\<exists>u v. dict_get sp_get_zone_pdf_urls ''H8'' = Some u
          \<and> dict_get ac_get_zone_pdf_urls ''H8'' = Some v \<and> u \<noteq> v)
   \<and> (\<exists>u v. dict_get sp_get_zone_pdf_urls ''H9'' = Some u
          \<and> dict_get ac_get_zone_pdf_urls ''H9'' = Some v \<and> u \<noteq> v)
   \<and> dict_get sp_get_zone_pdf_urls ''D18'' \<noteq> None
   \<and> dict_get ac_get_zone_pdf_urls ''D18'' = None
   \<and> dict_get sp_get_zone_pdf_urls ''H19'' \<noteq> None
   \<and> dict_get ac_get_zone_pdf_urls ''H19'' = None
   \<and> dict_get sp_get_zone_pdf_urls \<noteq> dict_get ac_get_zone_pdf_urls"
proof -
  have d18: "dict_get sp_get_zone_pdf_urls ''D18'' \<noteq> None"
    by (simp add: dict_get_def sp_get_zone_pdf_urls_def)
  have d18': "dict_get ac_get_zone_pdf_urls ''D18'' = None"
    by (simp add: dict_get_def ac_get_zone_pdf_urls_def)
  have h19: "dict_get sp_get_zone_pdf_urls ''H19'' \<noteq> None"
    by (simp add: dict_get_def sp_get_zone_pdf_urls_def)
  have h19': "dict_get ac_get_zone_pdf_urls ''H19'' = None"
    by (simp add: dict_get_def ac_get_zone_pdf_urls_def)
  have h7: "\<exists>u v. dict_get sp_get_zone_pdf_urls ''H7'' = Some u
          \<and> dict_get ac_get_zone_pdf_urls ''H7'' = Some v \<and> u \<noteq> v"
    by (simp add: dict_get_def sp_get_zone_pdf_urls_def ac_get_zone_pdf_urls_def)
  have h8: "\<exists>u v. dict_get sp_get_zone_pdf_urls ''H8'' = Some u
          \<and> dict_get ac_get_zone_pdf_urls ''H8'' = Some v \<and> u \<noteq> v"
    by (simp add: dict_get_def sp_get_zone_pdf_urls_def ac_get_zone_pdf_urls_def)
  have h9: "\<exists>u v. dict_get sp_get_zone_pdf_urls ''H9'' = Some u
          \<and> dict_get ac_get_zone_pdf_urls ''H9'' = Some v \<and> u \<noteq> v"
    by (simp add: dict_get_def sp_get_zone_pdf_urls_def ac_get_zone_pdf_urls_def)
  have neq: "dict_get sp_get_zone_pdf_urls \<noteq> dict_get ac_get_zone_pdf_urls"
    using d18 d18' by metis
  show ?thesis using d18 d18' h19 h19' h7 h8 h9 neq by blast
qed

lemma prompts_append: "prompts (xs @ ys) = prompts xs @ prompts ys"
  by (induction xs rule: prompts.induct) simp_all

lemma decoded_append: "decoded (xs @ ys) = decoded xs @ decoded ys"
  by (induction xs rule: decoded.induct) simp_all

lemma sp_extract_body_prompts:
  "prompts (calls (snd (sp_extract_body e url w))) = prompts (calls w)"
  by (simp add: sp_extract_body_def tmp_create_def record_call_def unlink_def prompts_append
      Let_def split: sum.splits prod.splits)

lemma sp_extract_pdf_text_prompts:
  "prompts (calls (snd (sp_extract_pdf_text e p url w))) = prompts (calls w)"
  using sp_extract_body_prompts[of e url w]
  by (auto simp add: sp_extract_pdf_text_def print_def split: sum.splits prod.splits)

section \<open>Empty extracted text\<close>

text \<open>
  C9. In the truncation processor, when the client exists, the zone is registered and the
  extraction of its document returns the empty string, \<open>query_zone_with_ai\<close> returns
  \<open>None\<close> in the world the extraction left, and no prompt has been sent to the
  completion service.
\<close>

theorem empty_text_is_failure:
  assumes "sp_llm p = Some llm"
    and "dict_get sp_get_zone_pdf_urls z = Some url"
    and "sp_extract_pdf_text e p url w = (Some [], w1)"
  shows "sp_query_zone_with_ai e p z q w = (None, w1)
         \<and> prompts (calls w1) = prompts (calls w)"
proof -
  have "sp_query_zone_with_ai e p z q w = (None, w1)"
    using assms by (simp add: sp_query_zone_with_ai_def)
  moreover have "prompts (calls w1) = prompts (calls w)"
    using sp_extract_pdf_text_prompts[of e p url w] assms(3) by simp
  ultimately show ?thesis by simp
qed

lemma H3_registered:
  "dict_get sp_get_zone_pdf_urls ''H3'' =
     Some ''https://unitaryplan.aucklandcouncil.govt.nz/images/Auckland%20Unitary%20Plan%20Operative/Chapter%20H%20Zones/H3%20Residential%20-%20Single%20House%20Zone.pdf''"
  "dict_get ac_get_zone_pdf_urls ''H3'' =
     Some ''https://unitaryplan.aucklandcouncil.govt.nz/images/Auckland%20Unitary%20Plan%20Operative/Chapter%20H%20Zones/H3%20Residential%20-%20Single%20House%20Zone.pdf''"
  by (simp_all add: dict_get_def sp_get_zone_pdf_urls_def ac_get_zone_pdf_urls_def)

lemma fetch_env_ok: "fetch env_ok url = Inr [37, 80, 68, 70]"
  "fetch env_no_pages url = Inr [37, 80, 68, 70]"
  "fetch env_decode_fails url = Inr [37, 80, 68, 70]"
  "fetch env_http_404 url = Inl (HTTPError 404)"
  by (simp_all add: fetch_def env_ok_def env_no_pages_def env_decode_fails_def env_http_404_def)

theorem empty_text_is_failure_witness:
  "sp_llm sp_ready = Some ''sk-test''
   \<and> dict_get sp_get_zone_pdf_urls ''H3'' \<noteq> None
   \<and> fst (sp_extract_pdf_text env_no_pages sp_ready
        ''https://unitaryplan.aucklandcouncil.govt.nz/images/Auckland%20Unitary%20Plan%20Operative/Chapter%20H%20Zones/H3%20Residential%20-%20Single%20House%20Zone.pdf'' world0) = Some []
   \<and> fst (sp_query_zone_with_ai env_no_pages sp_ready ''H3'' ''What is the maximum height?'' world0) = None
   \<and> prompts (calls (snd (sp_query_zone_with_ai env_no_pages sp_ready ''H3'' ''What is the maximum height?'' world0))) = []"
proof -
  let ?u = "''https://unitaryplan.aucklandcouncil.govt.nz/images/Auckland%20Unitary%20Plan%20Operative/Chapter%20H%20Zones/H3%20Residential%20-%20Single%20House%20Zone.pdf''"
  let ?w1 = "snd (sp_extract_pdf_text env_no_pages sp_ready ?u world0)"
  have l: "sp_llm sp_ready = Some ''sk-test''" by (simp add: sp_ready_def)
  have b: "sp_extract_body env_no_pages ?u world0 =
     (Inr (join ''\<newline>'' []), world0\<lparr>calls := calls world0 @ [HttpGet ?u, PdfLoad (fresh_tmp world0)]\<rparr>)"
    by (rule sp_extract_body_ok[OF fetch_env_ok(2)]) (simp_all add: env_no_pages_def env_ok_def)
  have x: "sp_extract_pdf_text env_no_pages sp_ready ?u world0 = (Some [], ?w1)"
    by (simp add: sp_extract_pdf_text_def b sp_ready_def)
  have w0: "prompts (calls world0) = []" by (simp add: world0_def)
  have fx: "fst (sp_extract_pdf_text env_no_pages sp_ready ?u world0) = Some []"
    by (simp add: sp_extract_pdf_text_def b sp_ready_def)
  have r: "sp_query_zone_with_ai env_no_pages sp_ready ''H3'' ''What is the maximum height?'' world0
             = (None, ?w1)
           \<and> prompts (calls ?w1) = prompts (calls world0)"
    by (rule empty_text_is_failure[OF l H3_registered(1) x])
  show ?thesis using r l fx w0 by (simp add: H3_registered)
qed


section \<open>Truncation of the evidence\<close>

text \<open>
  C5. Under the truncation strategy the one call to the completion service carries the
  prompt built from the first 8000 characters of the extracted text: that evidence is
  never longer than 8000 characters, and it is the whole text when the text has at most
  8000 characters.
\<close>

theorem truncation_bounds_evidence:
  assumes "sp_llm p = Some llm"
    and "dict_get sp_get_zone_pdf_urls z = Some url"
    and "sp_extract_pdf_text e p url w = (Some text, w1)"
    and "text \<noteq> []"
  shows "calls (snd (sp_query_zone_with_ai e p z q w))
           = calls w1 @ [LlmInvoke (sp_prompt z q (take 8000 text))]
         \<and> length (take 8000 text) \<le> 8000
         \<and> (length text \<le> 8000 \<longrightarrow> take 8000 text = text)"
proof -
  have "calls (snd (sp_query_zone_with_ai e p z q w))
           = calls w1 @ [LlmInvoke (sp_prompt z q (take 8000 text))]"
    using assms
    by (simp add: sp_query_zone_with_ai_def Let_def record_call_def print_def split: sum.splits)
  then show ?thesis by simp
qed

theorem truncation_bounds_evidence_witness:
  "sp_llm sp_ready = Some ''sk-test''
   \<and> dict_get sp_get_zone_pdf_urls ''H3'' \<noteq> None
   \<and> fst (sp_extract_pdf_text env_ok sp_ready
        ''https://unitaryplan.aucklandcouncil.govt.nz/images/Auckland%20Unitary%20Plan%20Operative/Chapter%20H%20Zones/H3%20Residential%20-%20Single%20House%20Zone.pdf'' world0)
       = Some ''Maximum height: 8 metres''
   \<and> prompts (calls (snd (sp_query_zone_with_ai env_ok sp_ready ''H3'' ''How high?'' world0)))
       = [sp_prompt ''H3'' ''How high?'' ''Maximum height: 8 metres'']"
proof -
  let ?u = "''https://unitaryplan.aucklandcouncil.govt.nz/images/Auckland%20Unitary%20Plan%20Operative/Chapter%20H%20Zones/H3%20Residential%20-%20Single%20House%20Zone.pdf''"
  let ?w1 = "world0\<lparr>calls := calls world0 @ [HttpGet ?u, PdfLoad (fresh_tmp world0)]\<rparr>"
  have l: "sp_llm sp_ready = Some ''sk-test''" by (simp add: sp_ready_def)
  have b: "sp_extract_body env_ok ?u world0 =
     (Inr (join ''\<newline>'' [''Maximum height: 8 metres'']), ?w1)"
    by (rule sp_extract_body_ok[OF fetch_env_ok(1)]) (simp_all add: env_ok_def)
  have x: "sp_extract_pdf_text env_ok sp_ready ?u world0 = (Some ''Maximum height: 8 metres'', ?w1)"
    by (simp add: sp_extract_pdf_text_def b sp_ready_def)
  have ne: "''Maximum height: 8 metres'' \<noteq> []" by simp
  have r: "calls (snd (sp_query_zone_with_ai env_ok sp_ready ''H3'' ''How high?'' world0))
           = calls ?w1 @ [LlmInvoke (sp_prompt ''H3'' ''How high?'' (take 8000 ''Maximum height: 8 metres''))]
         \<and> length (take 8000 ''Maximum height: 8 metres'') \<le> 8000
         \<and> (length ''Maximum height: 8 metres'' \<le> 8000
              \<longrightarrow> take 8000 ''Maximum height: 8 metres'' = ''Maximum height: 8 metres'')"
    by (rule truncation_bounds_evidence[OF l H3_registered(1) x ne])
  have t: "take 8000 ''Maximum height: 8 metres'' = ''Maximum height: 8 metres''"
    using r by simp
  have c: "prompts (calls (snd (sp_query_zone_with_ai env_ok sp_ready ''H3'' ''How high?'' world0)))
       = [sp_prompt ''H3'' ''How high?'' ''Maximum height: 8 metres'']"
    using r by (simp only: t) (simp add: world0_def prompts_append)
  show ?thesis using l x c by (simp add: H3_registered)
qed

section \<open>A failed fetch ends the query\<close>

text \<open>
  C6. When the fetch of a registered zone's document fails (a transport error, or a status
  from 400 to 599), \<open>query_zone_with_ai\<close> returns \<open>None\<close>; the only call made is
  the fetch, the fetch error is what the printed diagnostic carries, and neither the
  decoder nor the completion service is called.
\<close>

theorem fetch_failure_stops_query:
  assumes "sp_llm p = Some llm"
    and "sp_available p"
    and "dict_get sp_get_zone_pdf_urls z = Some url"
    and "fetch e url = Inl x"
  shows "sp_query_zone_with_ai e p z q w =
           (None, w\<lparr>stdout := stdout w @ [Diag ''Error extracting PDF text: '' x],
                     calls := calls w @ [HttpGet url]\<rparr>)
         \<and> decoded (calls (snd (sp_query_zone_with_ai e p z q w))) = decoded (calls w)
         \<and> prompts (calls (snd (sp_query_zone_with_ai e p z q w))) = prompts (calls w)"
proof -
  have "sp_query_zone_with_ai e p z q w =
           (None, w\<lparr>stdout := stdout w @ [Diag ''Error extracting PDF text: '' x],
                     calls := calls w @ [HttpGet url]\<rparr>)"
    using assms
    by (simp add: sp_query_zone_with_ai_def sp_extract_pdf_text_def
        sp_extract_body_fetch_fails print_def record_call_def)
  then show ?thesis by (simp add: decoded_append prompts_append)
qed

theorem fetch_failure_stops_query_witness:
  "sp_llm sp_ready = Some ''sk-test'' \<and> sp_available sp_ready
   \<and> dict_get sp_get_zone_pdf_urls ''H3'' \<noteq> None
   \<and> fetch env_http_404
        ''https://unitaryplan.aucklandcouncil.govt.nz/images/Auckland%20Unitary%20Plan%20Operative/Chapter%20H%20Zones/H3%20Residential%20-%20Single%20House%20Zone.pdf''
       = Inl (HTTPError 404)
   \<and> fst (sp_query_zone_with_ai env_http_404 sp_ready ''H3'' ''How high?'' world0) = None
   \<and> stdout (snd (sp_query_zone_with_ai env_http_404 sp_ready ''H3'' ''How high?'' world0))
       = [Diag ''Error extracting PDF text: '' (HTTPError 404)]
   \<and> decoded (calls (snd (sp_query_zone_with_ai env_http_404 sp_ready ''H3'' ''How high?'' world0))) = []
   \<and> prompts (calls (snd (sp_query_zone_with_ai env_http_404 sp_ready ''H3'' ''How high?'' world0))) = []"
proof -
  have l: "sp_llm sp_ready = Some ''sk-test''" and a: "sp_available sp_ready"
    by (simp_all add: sp_ready_def)
  note r = fetch_failure_stops_query[OF l a H3_registered(1) fetch_env_ok(4),
      where q = "''How high?''" and w = world0]
  show ?thesis using l a r by (simp add: H3_registered fetch_env_ok world0_def)
qed


lemma ac_run_chain_result:
  "ac_run_chain e p z q w = (r, w1) \<Longrightarrow> r = None \<and> calls w1 = calls w \<and> tmp_files w1 = tmp_files w"
  by (auto simp add: ac_run_chain_def ac_global_unbound print_def)

lemma ac_create_unregistered:
  "dict_get ac_get_zone_pdf_urls z = None \<Longrightarrow> snd (snd (ac_create_vector_store e p z w)) = w"
  by (simp add: ac_create_vector_store_def split: attr.splits)

lemma ac_query_unregistered:
  assumes "dict_get ac_get_zone_pdf_urls z = None"
  shows "fst (ac_query_zone_planning_rules e p z q w) \<noteq> Inr (Some a)
         \<and> calls (snd (snd (ac_query_zone_planning_rules e p z q w))) = calls w"
  using assms
  by (auto simp add: ac_query_zone_planning_rules_def ac_create_vector_store_def
      dest!: ac_run_chain_result split: attr.splits option.splits prod.splits sum.splits)

section \<open>Unknown and known zone codes\<close>

text \<open>
  C2. For a zone code that is not a key of the registry, the truncation processor's query
  returns \<open>None\<close> and leaves the world as it was; the retrieval processor's query
  returns no answer and makes no call, and \<open>create_vector_store\<close> leaves the world as
  it was. For a pair listed in a registry, looking the code up returns that URL.
\<close>

theorem unknown_zone_no_fetch:
  "(dict_get sp_get_zone_pdf_urls z = None \<longrightarrow> sp_query_zone_with_ai e p z q w = (None, w))
   \<and> (dict_get ac_get_zone_pdf_urls z = None \<longrightarrow>
        fst (ac_query_zone_planning_rules e pa z q w) \<noteq> Inr (Some a)
        \<and> calls (snd (snd (ac_query_zone_planning_rules e pa z q w))) = calls w
        \<and> snd (snd (ac_create_vector_store e pa z w)) = w)
   \<and> ((z', u) \<in> set sp_get_zone_pdf_urls \<longrightarrow> dict_get sp_get_zone_pdf_urls z' = Some u)
   \<and> ((z', v) \<in> set ac_get_zone_pdf_urls \<longrightarrow> dict_get ac_get_zone_pdf_urls z' = Some v)"
proof -
  have 1: "dict_get sp_get_zone_pdf_urls z = None \<longrightarrow> sp_query_zone_with_ai e p z q w = (None, w)"
    by (simp add: sp_query_zone_with_ai_def split: option.splits)
  have 2: "dict_get ac_get_zone_pdf_urls z = None \<longrightarrow>
        fst (ac_query_zone_planning_rules e pa z q w) \<noteq> Inr (Some a)
        \<and> calls (snd (snd (ac_query_zone_planning_rules e pa z q w))) = calls w
        \<and> snd (snd (ac_create_vector_store e pa z w)) = w"
    using ac_query_unregistered[of z e pa q w a] ac_create_unregistered[of z e pa w] by blast
  have 3: "(z', u) \<in> set sp_get_zone_pdf_urls \<longrightarrow> dict_get sp_get_zone_pdf_urls z' = Some u"
    using dict_get_member[OF sp_keys_distinct] by blast
  have 4: "(z', v) \<in> set ac_get_zone_pdf_urls \<longrightarrow> dict_get ac_get_zone_pdf_urls z' = Some v"
    using dict_get_member[OF ac_keys_distinct] by blast
  show ?thesis using 1 2 3 4 by blast
qed

lemma ZZZ_unregistered:
  "dict_get sp_get_zone_pdf_urls ''ZZZ'' = None"
  "dict_get ac_get_zone_pdf_urls ''ZZZ'' = None"
  by (simp_all add: dict_get_def sp_get_zone_pdf_urls_def ac_get_zone_pdf_urls_def)

lemma H3_listed:
  "(''H3'', ''https://unitaryplan.aucklandcouncil.govt.nz/images/Auckland%20Unitary%20Plan%20Operative/Chapter%20H%20Zones/H3%20Residential%20-%20Single%20House%20Zone.pdf'')
     \<in> set sp_get_zone_pdf_urls"
  "(''H3'', ''https://unitaryplan.aucklandcouncil.govt.nz/images/Auckland%20Unitary%20Plan%20Operative/Chapter%20H%20Zones/H3%20Residential%20-%20Single%20House%20Zone.pdf'')
     \<in> set ac_get_zone_pdf_urls"
  by (simp_all add: sp_get_zone_pdf_urls_def ac_get_zone_pdf_urls_def)

theorem unknown_zone_no_fetch_witness:
  "dict_get sp_get_zone_pdf_urls ''ZZZ'' = None
   \<and> dict_get ac_get_zone_pdf_urls ''ZZZ'' = None
   \<and> sp_query_zone_with_ai env_ok sp_ready ''ZZZ'' ''How high?'' world0 = (None, world0)
   \<and> fst (ac_query_zone_planning_rules env_ok ac_intended ''ZZZ'' ''How high?'' world0)
        \<noteq> Inr (Some ''8 metres'')
   \<and> calls (snd (snd (ac_query_zone_planning_rules env_ok ac_intended ''ZZZ'' ''How high?'' world0)))
        = []
   \<and> snd (snd (ac_create_vector_store env_ok ac_intended ''ZZZ'' world0)) = world0
   \<and> (''H3'', ''https://unitaryplan.aucklandcouncil.govt.nz/images/Auckland%20Unitary%20Plan%20Operative/Chapter%20H%20Zones/H3%20Residential%20-%20Single%20House%20Zone.pdf'')
        \<in> set sp_get_zone_pdf_urls
   \<and> (''H3'', ''https://unitaryplan.aucklandcouncil.govt.nz/images/Auckland%20Unitary%20Plan%20Operative/Chapter%20H%20Zones/H3%20Residential%20-%20Single%20House%20Zone.pdf'')
        \<in> set ac_get_zone_pdf_urls
   \<and> dict_get sp_get_zone_pdf_urls ''H3'' =
        Some ''https://unitaryplan.aucklandcouncil.govt.nz/images/Auckland%20Unitary%20Plan%20Operative/Chapter%20H%20Zones/H3%20Residential%20-%20Single%20House%20Zone.pdf''
   \<and> dict_get ac_get_zone_pdf_urls ''H3'' =
        Some ''https://unitaryplan.aucklandcouncil.govt.nz/images/Auckland%20Unitary%20Plan%20Operative/Chapter%20H%20Zones/H3%20Residential%20-%20Single%20House%20Zone.pdf''"
proof -
  let ?u = "''https://unitaryplan.aucklandcouncil.govt.nz/images/Auckland%20Unitary%20Plan%20Operative/Chapter%20H%20Zones/H3%20Residential%20-%20Single%20House%20Zone.pdf''"
  have w0: "calls world0 = []" by (simp add: world0_def)
  note r = unknown_zone_no_fetch[where z = "''ZZZ''" and z' = "''H3''" and u = ?u and v = ?u
      and e = env_ok and p = sp_ready and pa = ac_intended and q = "''How high?''"
      and w = world0 and a = "''8 metres''"]
  show ?thesis
    using r ZZZ_unregistered H3_listed w0 by simp
qed

section \<open>The retrieval processor is never available\<close>

lemma ac_init_env_ok:
  "ac_init env_ok (Some ''sk-test'') world0 =
     (Inr ac_constructed,
      print (Diag ''Error initializing LangChain components: ''
               (NameError ''RecursiveCharacterTextSplitter'')) world0)"
  by (simp add: ac_init_def ac_init_body_def ac_global_unbound ac_constructed_def
      ac_global_def ac_module_names_def env_ok_def)

lemma ac_init_without_loader:
  "\<not> has_langchain_community e \<Longrightarrow>
   ac_init e openai_api_key w = (Inl (NameError ''PyPDFLoader''), w)"
  by (simp add: ac_init_def ac_global_def ac_module_names_def)

text \<open>
  C8, as amended. When \<open>langchain_community\<close> was imported, \<open>__init__\<close> returns the
  processor \<open>ac_constructed\<close> after printing the \<open>NameError\<close> its handler caught: the
  first statement of the \<open>try\<close> reads \<open>RecursiveCharacterTextSplitter\<close>, which the
  module never binds, so \<open>available\<close> is \<open>False\<close> and no other attribute is assigned.
  When the import failed, the first statement of \<open>__init__\<close>, outside the \<open>try\<close>,
  raises \<open>NameError\<close> for \<open>PyPDFLoader\<close>: the handler does not run and no processor
  is returned. On the processor returned, \<open>query_zone_planning_rules\<close> returns \<open>None\<close>
  for every zone code and query and leaves the world as it was.
\<close>

theorem ac_init_outcome:
  "ac_init e openai_api_key w =
     (if has_langchain_community e
      then (Inr ac_constructed,
            print (Diag ''Error initializing LangChain components: ''
                     (NameError ''RecursiveCharacterTextSplitter'')) w)
      else (Inl (NameError ''PyPDFLoader''), w))
   \<and> \<not> ac_available ac_constructed
   \<and> ac_query_zone_planning_rules e ac_constructed zone_code query w2
       = (Inr None, ac_constructed, w2)"
proof -
  have g: "ac_global e ''PyPDFLoader''
             = (if has_langchain_community e then Inr () else Inl (NameError ''PyPDFLoader''))"
    by (simp add: ac_global_def ac_module_names_def)
  have i: "ac_init e openai_api_key w =
     (if has_langchain_community e
      then (Inr ac_constructed,
            print (Diag ''Error initializing LangChain components: ''
                     (NameError ''RecursiveCharacterTextSplitter'')) w)
      else (Inl (NameError ''PyPDFLoader''), w))"
    by (simp add: ac_init_def ac_init_body_def g ac_global_unbound ac_constructed_def)
  have a: "\<not> ac_available ac_constructed"
    by (simp add: ac_constructed_def)
  have q: "ac_query_zone_planning_rules e ac_constructed zone_code query w2
       = (Inr None, ac_constructed, w2)"
    using a by (simp add: ac_query_zone_planning_rules_def)
  show ?thesis using i a q by simp
qed

text \<open>
  C8 as stated fails where \<open>langchain_community\<close> is not installed: the constructor
  raises, no \<open>available\<close> is left, and \<open>main\<close> ends with the same exception.
\<close>

theorem ac_init_raises_counterexample:
  "ac_init env_no_langchain (Some ''sk-test'') world0 = (Inl (NameError ''PyPDFLoader''), world0)
   \<and> fst (ac_main env_no_langchain [''langchain-pdf-rag.py'', ''H3'', ''How'', ''high?'']
            (Some ''sk-test'') world0) = Inl (NameError ''PyPDFLoader'')"
proof -
  have h: "\<not> has_langchain_community env_no_langchain"
    by (simp add: env_no_langchain_def)
  have i: "ac_init env_no_langchain (Some ''sk-test'') w = (Inl (NameError ''PyPDFLoader''), w)"
    for w
    by (rule ac_init_without_loader[OF h])
  have t: "truthy (Some ''sk-test'')" by (simp add: truthy_def)
  have m: "fst (ac_main env_no_langchain [''langchain-pdf-rag.py'', ''H3'', ''How'', ''high?'']
            (Some ''sk-test'') world0) = Inl (NameError ''PyPDFLoader'')"
    by (simp add: ac_main_def t i)
  show ?thesis using i m by simp
qed

text \<open>
  Supporting facts: a processor the constructor returns loads no chunks, and the
  retrieval script's \<open>main\<close> never exits normally.
\<close>

lemma ac_constructed_loads_nothing:
  "ac_init e openai_api_key w = (Inr p, w1) \<Longrightarrow> ac_load_pdf_from_url e p url w2 = ([], w2)"
  by (auto simp add: ac_init_def ac_init_body_def ac_global_unbound ac_load_pdf_from_url_def
      split: sum.splits)

lemma ac_main_never_responds:
  "fst (ac_main e argv environ_key w) \<noteq> Inr 0"
  by (auto simp add: ac_main_def ac_init_def ac_init_body_def ac_global_unbound Let_def
      split: sum.splits prod.splits)

section \<open>No chunks are produced\<close>

text \<open>
  C1. The code at the failing input: with every package installed and a document whose
  one page has text, the constructed processor has no text splitter, and
  \<open>load_pdf_from_url\<close> returns the empty chunk list for every URL without fetching,
  so no character of the document is in any chunk.
\<close>

theorem splitter_never_built_no_chunks:
  "fst (ac_init env_ok (Some ''sk-test'') world0) = Inr ac_constructed
   \<and> ac_text_splitter ac_constructed = Unset
   \<and> pdf_load env_ok [37, 80, 68, 70] = Inr [''Maximum height: 8 metres'']
   \<and> ac_load_pdf_from_url env_ok ac_constructed url world0 = ([], world0)"
proof -
  have "fst (ac_init env_ok (Some ''sk-test'') world0) = Inr ac_constructed"
    by (simp add: ac_init_env_ok)
  moreover have "ac_text_splitter ac_constructed = Unset"
    by (simp add: ac_constructed_def)
  moreover have "pdf_load env_ok [37, 80, 68, 70] = Inr [''Maximum height: 8 metres'']"
    by (simp add: env_ok_def)
  moreover have "ac_load_pdf_from_url env_ok ac_constructed url world0 = ([], world0)"
    by (simp add: ac_load_pdf_from_url_def ac_constructed_def)
  ultimately show ?thesis by simp
qed


text \<open>
  Supporting facts: when extraction returns a text the temporary files are those there
  were before; when the decoder raises, the staged file is one more.
\<close>

lemma sp_extract_tmp_released:
  assumes "sp_extract_pdf_text e p url w = (Some text, w1)"
  shows "tmp_files w1 = tmp_files w"
proof -
  have "tmp_files (unlink (fresh_tmp w) (w\<lparr>tmp_files := (fresh_tmp w, c) # tmp_files w, calls := cs\<rparr>))
          = tmp_files w" for c cs
    using filter_fresh[of w] by (simp add: unlink_def)
  moreover have "fresh_tmp (w\<lparr>calls := cs\<rparr>) = fresh_tmp w" for cs
    by (simp add: fresh_tmp_def)
  ultimately show ?thesis
    using assms
    by (auto simp add: sp_extract_pdf_text_def sp_extract_body_def Let_def tmp_create_def
        record_call_def split: if_splits sum.splits prod.splits)
qed

lemma sp_extract_tmp_left:
  assumes "sp_available p" and "has_langchain_community e"
    and "fetch e url = Inr content" and "pdf_load e content = Inl x"
  shows "tmp_files (snd (sp_extract_pdf_text e p url w)) = (fresh_tmp w, content) # tmp_files w"
  using assms
  by (simp add: sp_extract_pdf_text_def sp_extract_body_decode_fails print_def)

section \<open>The temporary file\<close>

text \<open>
  C3. The code at the failing input: the fetch succeeds and the decoder raises. Before the
  call there is no temporary file; after \<open>extract_pdf_text\<close>, and after
  \<open>query_zone_with_ai\<close> for zone H3, the staged file still exists.
\<close>

theorem tmp_file_left_after_decode_failure:
  "tmp_files world0 = []
   \<and> fst (sp_extract_pdf_text env_decode_fails sp_ready url world0) = None
   \<and> tmp_files (snd (sp_extract_pdf_text env_decode_fails sp_ready url world0))
       = [(1, [37, 80, 68, 70])]
   \<and> fst (sp_query_zone_with_ai env_decode_fails sp_ready ''H3'' query world0) = None
   \<and> tmp_files (snd (sp_query_zone_with_ai env_decode_fails sp_ready ''H3'' query world0))
       = [(1, [37, 80, 68, 70])]"
proof -
  have b: "sp_extract_body env_decode_fails u world0 =
     (Inl (DecodeError ''not a PDF''),
      world0\<lparr>tmp_files := (fresh_tmp world0, [37, 80, 68, 70]) # tmp_files world0,
             calls := calls world0 @ [HttpGet u, PdfLoad (fresh_tmp world0)]\<rparr>)" for u
    by (rule sp_extract_body_decode_fails[OF fetch_env_ok(3)])
       (simp_all add: env_decode_fails_def env_ok_def)
  have f: "fresh_tmp world0 = 1" and t: "tmp_files world0 = []"
    by (simp_all add: fresh_tmp_def world0_def)
  have l: "sp_llm sp_ready = Some ''sk-test''" by (simp add: sp_ready_def)
  have x: "sp_extract_pdf_text env_decode_fails sp_ready u world0 =
     (None, print (Diag ''Error extracting PDF text: '' (DecodeError ''not a PDF''))
        (world0\<lparr>tmp_files := [(1, [37, 80, 68, 70])],
             calls := calls world0 @ [HttpGet u, PdfLoad 1]\<rparr>))" for u
    by (simp add: sp_extract_pdf_text_def b sp_ready_def f t)
  have q: "sp_query_zone_with_ai env_decode_fails sp_ready ''H3'' query world0 =
     sp_extract_pdf_text env_decode_fails sp_ready
       ''https://unitaryplan.aucklandcouncil.govt.nz/images/Auckland%20Unitary%20Plan%20Operative/Chapter%20H%20Zones/H3%20Residential%20-%20Single%20House%20Zone.pdf'' world0"
    by (simp add: sp_query_zone_with_ai_def H3_registered(1) x l)
  show ?thesis by (simp add: q x t print_def)
qed

section \<open>Index construction failure\<close>



text \<open>
  The truncation processor answers the question in the environment \<open>env_ok\<close>.
\<close>

lemma sp_query_ok:
  assumes "sp_llm p = Some llm" and "sp_available p"
    and "dict_get sp_get_zone_pdf_urls z = Some url"
    and "fetch e url = Inr content" and "has_langchain_community e"
    and "pdf_load e content = Inr pages" and "join ''\<newline>'' pages \<noteq> []"
    and "llm_invoke e (sp_prompt z q (take 8000 (join ''\<newline>'' pages))) = Inr r"
  shows "fst (sp_query_zone_with_ai e p z q w) = Some r"
    and "stdout (snd (sp_query_zone_with_ai e p z q w)) = stdout w"
  using assms
  by (simp_all add: sp_query_zone_with_ai_def sp_extract_pdf_text_def sp_extract_body_ok
      Let_def record_call_def)

lemma sp_query_env_ok:
  "fst (sp_query_zone_with_ai env_ok sp_ready ''H3'' q w) = Some ''8 metres''"
  "stdout (snd (sp_query_zone_with_ai env_ok sp_ready ''H3'' q w)) = stdout w"
proof -
  have l: "sp_llm sp_ready = Some ''sk-test''" and a: "sp_available sp_ready"
    by (simp_all add: sp_ready_def)
  have h: "has_langchain_community env_ok"
    and d: "pdf_load env_ok [37, 80, 68, 70] = Inr [''Maximum height: 8 metres'']"
    and i: "llm_invoke env_ok
              (sp_prompt ''H3'' q (take 8000 (join ''\<newline>'' [''Maximum height: 8 metres''])))
            = Inr ''8 metres''"
    by (simp_all add: env_ok_def)
  have n: "join ''\<newline>'' [''Maximum height: 8 metres''] \<noteq> []" by simp
  show "fst (sp_query_zone_with_ai env_ok sp_ready ''H3'' q w) = Some ''8 metres''"
    by (rule sp_query_ok(1)[OF l a H3_registered(1) fetch_env_ok(1) h d n i])
  show "stdout (snd (sp_query_zone_with_ai env_ok sp_ready ''H3'' q w)) = stdout w"
    by (rule sp_query_ok(2)[OF l a H3_registered(1) fetch_env_ok(1) h d n i])
qed


text \<open>
  Supporting facts about the paths of \<open>create_vector_store\<close> past its availability
  check, which no constructed processor reaches: on a processor with every attribute
  assigned, building the index always fails (\<open>FAISS\<close> is unbound), and a document
  without pages yields no chunks; both return \<open>False\<close>.
\<close>

lemma ac_build_index_result:
  "ac_build_index e p z docs w =
     (False, p, print (Diag (''Error creating vector store for zone '' @ z @ '': '')
                         (NameError ''FAISS'')) w)"
  by (simp add: ac_build_index_def ac_global_unbound)

lemma ac_load_body_ok:
  "fetch e url = Inr content \<Longrightarrow> has_langchain_community e \<Longrightarrow> pdf_load e content = Inr pages \<Longrightarrow>
   ac_text_splitter p = Attr (Splitter n k) \<Longrightarrow>
   ac_load_body e p url w =
     (Inr (split_documents e n k pages),
      w\<lparr>calls := calls w @ [HttpGet url, PdfLoad (fresh_tmp w)]\<rparr>)"
  using filter_fresh[of w]
  by (simp add: ac_load_body_def tmp_create_def record_call_def load_file_def
      ac_global_def ac_module_names_def unlink_def fresh_tmp_def)

lemma dict_get_Nil: "dict_get [] k = None"
  by (simp add: dict_get_def)

lemma ac_intended_fields:
  "ac_available ac_intended"
  "ac_llm ac_intended = Attr (Some ''sk-test'')"
  "ac_vector_stores ac_intended = Attr []"
  "ac_text_splitter ac_intended = Attr (Splitter 1000 200)"
  by (simp_all add: ac_intended_def)

lemma ac_create_intended_env_ok:
  "fst (ac_create_vector_store env_ok ac_intended ''H3'' world0) = Inr False"
proof -
  have b: "ac_load_body env_ok ac_intended u w =
     (Inr (split_documents env_ok 1000 200 [''Maximum height: 8 metres'']),
      w\<lparr>calls := calls w @ [HttpGet u, PdfLoad (fresh_tmp w)]\<rparr>)" for u w
    by (rule ac_load_body_ok[OF fetch_env_ok(1) _ _ ac_intended_fields(4)])
       (simp_all add: env_ok_def)
  have s: "split_documents env_ok 1000 200 [''Maximum height: 8 metres'']
             = [''Maximum height: 8 metres'']"
    by (simp add: env_ok_def)
  show ?thesis
    by (simp add: ac_create_vector_store_def ac_intended_fields dict_get_Nil H3_registered(2)
        ac_load_pdf_from_url_def b s ac_build_index_result Let_def)
qed

lemma ac_create_intended_env_no_pages:
  "fst (ac_create_vector_store env_no_pages ac_intended ''H3'' world0) = Inr False"
proof -
  have b: "ac_load_body env_no_pages ac_intended u w =
     (Inr (split_documents env_no_pages 1000 200 []),
      w\<lparr>calls := calls w @ [HttpGet u, PdfLoad (fresh_tmp w)]\<rparr>)" for u w
    by (rule ac_load_body_ok[OF fetch_env_ok(2) _ _ ac_intended_fields(4)])
       (simp_all add: env_no_pages_def env_ok_def)
  have s: "split_documents env_no_pages 1000 200 [] = []"
    by (simp add: env_no_pages_def env_ok_def)
  show ?thesis
    by (simp add: ac_create_vector_store_def ac_intended_fields dict_get_Nil H3_registered(2)
        ac_load_pdf_from_url_def b s Let_def)
qed

section \<open>The response of the command line\<close>

lemma sp_init_available:
  "sp_available (fst (sp_init e k w)) = sp_LANGCHAIN_AVAILABLE e"
  by (simp add: sp_init_def Let_def split: option.splits sum.splits)

lemma sp_init_env_ok:
  "sp_init env_ok (Some ''sk-test'') world0 = (sp_ready, record_call (OpenAINew ''sk-test'') world0)"
  by (simp add: sp_init_def sp_LANGCHAIN_AVAILABLE_def sp_global_def sp_module_names_def
      env_ok_def sp_ready_def Let_def)

text \<open>The early exits of the truncation script.\<close>

lemma sp_main_usage:
  "length argv < 3 \<Longrightarrow>
   sp_main e argv environ_key w =
     (1, print (Text ''Usage: python simple-pdf-processor.py <zone_code> <query>'') w)"
  by (simp add: sp_main_def)

lemma sp_main_no_key:
  "3 \<le> length argv \<Longrightarrow> \<not> truthy environ_key \<Longrightarrow>
   sp_main e argv environ_key w =
     (1, print (Json (JObj [(''success'', JBool False),
                            (''error'', JStr ''OPENAI_API_KEY environment variable not set'')])) w)"
  by (simp add: sp_main_def)

lemma sp_main_unavailable:
  "3 \<le> length argv \<Longrightarrow> truthy environ_key \<Longrightarrow> \<not> sp_LANGCHAIN_AVAILABLE e \<Longrightarrow>
   sp_main e argv environ_key w =
     (1, print (Json (JObj [(''success'', JBool False),
                            (''error'', JStr ''LangChain dependencies not available'')]))
           (snd (sp_init e environ_key w)))"
  using sp_init_available[of e environ_key w]
  by (simp add: sp_main_def Let_def case_prod_beta)

text \<open>
  C7, as amended. An invocation of the truncation script with at least two arguments, a
  non-empty credential and the packages installed exits normally, and the last thing it
  prints is one JSON object with the five keys success, zone_code, query, result and
  error, in which success tells whether result is non-null and exactly one of result and
  error is null.
\<close>

theorem sp_main_response_shape:
  assumes "3 \<le> length argv" and "truthy environ_key" and "sp_LANGCHAIN_AVAILABLE e"
  shows "\<exists>result w1.
           sp_main e argv environ_key w =
             (0, print (Json (sp_response (argv ! 1) (join '' '' (drop 2 argv)) result)) w1)
           \<and> json_keys (sp_response (argv ! 1) (join '' '' (drop 2 argv)) result)
               = [''success'', ''zone_code'', ''query'', ''result'', ''error'']
           \<and> json_get (sp_response (argv ! 1) (join '' '' (drop 2 argv)) result) ''success''
               = Some (JBool (result \<noteq> None))
           \<and> (json_get (sp_response (argv ! 1) (join '' '' (drop 2 argv)) result) ''result''
                = Some JNull) = (result = None)
           \<and> (json_get (sp_response (argv ! 1) (join '' '' (drop 2 argv)) result) ''error''
                = Some JNull) = (result \<noteq> None)"
proof -
  let ?z = "argv ! 1" and ?q = "join '' '' (drop 2 argv)"
  let ?p = "fst (sp_init e environ_key w)" and ?w1 = "snd (sp_init e environ_key w)"
  let ?r = "fst (sp_query_zone_with_ai e ?p ?z ?q ?w1)"
  let ?w2 = "snd (sp_query_zone_with_ai e ?p ?z ?q ?w1)"
  have a: "sp_available ?p" using assms(3) by (simp add: sp_init_available)
  have m: "sp_main e argv environ_key w = (0, print (Json (sp_response ?z ?q ?r)) ?w2)"
    using assms(1,2) a by (simp add: sp_main_def Let_def case_prod_beta)
  have k: "json_keys (sp_response ?z ?q ?r)
             = [''success'', ''zone_code'', ''query'', ''result'', ''error'']"
    by (simp add: sp_response_def)
  have s: "json_get (sp_response ?z ?q ?r) ''success'' = Some (JBool (?r \<noteq> None))"
    by (simp add: sp_response_def)
  have r: "(json_get (sp_response ?z ?q ?r) ''result'' = Some JNull) = (?r = None)"
    by (simp add: sp_response_def split: option.splits)
  have x: "(json_get (sp_response ?z ?q ?r) ''error'' = Some JNull) = (?r \<noteq> None)"
    by (simp add: sp_response_def)
  show ?thesis
    by (rule exI[of _ ?r], rule exI[of _ ?w2]) (intro conjI m k s r x)
qed

theorem sp_main_response_shape_witness:
  "3 \<le> length [''simple-pdf-processor.py'', ''H3'', ''How'', ''high?'']
   \<and> truthy (Some ''sk-test'') \<and> sp_LANGCHAIN_AVAILABLE env_ok
   \<and> (\<exists>result w1.
        sp_main env_ok [''simple-pdf-processor.py'', ''H3'', ''How'', ''high?''] (Some ''sk-test'')
          world0
          = (0, print (Json (sp_response ''H3'' ''How high?'' result)) w1)
        \<and> json_keys (sp_response ''H3'' ''How high?'' result)
            = [''success'', ''zone_code'', ''query'', ''result'', ''error''])"
proof -
  have 1: "3 \<le> length [''simple-pdf-processor.py'', ''H3'', ''How'', ''high?'']" by simp
  have 2: "truthy (Some ''sk-test'')" by (simp add: truthy_def)
  have 3: "sp_LANGCHAIN_AVAILABLE env_ok" by (simp add: sp_LANGCHAIN_AVAILABLE_def env_ok_def)
  have j: "join '' '' (drop 2 [''simple-pdf-processor.py'', ''H3'', ''How'', ''high?''])
             = ''How high?''"
    by simp
  have i: "[''simple-pdf-processor.py'', ''H3'', ''How'', ''high?''] ! 1 = ''H3''" by simp
  from sp_main_response_shape[OF 1 2 3, of world0]
  show ?thesis unfolding j i using 1 2 3 by blast
qed

text \<open>
  C7 as stated fails: a successful run of the truncation script prints an object that has
  both the key result and the key error.
\<close>

theorem sp_main_both_keys_counterexample:
  "stdout (snd (sp_main env_ok [''simple-pdf-processor.py'', ''H3'', ''How'', ''high?'']
                  (Some ''sk-test'') world0))
     = [Json (JObj [(''success'', JBool True),
                    (''zone_code'', JStr ''H3''),
                    (''query'', JStr ''How high?''),
                    (''result'', JStr ''8 metres''),
                    (''error'', JNull)])]"
proof -
  let ?w1 = "record_call (OpenAINew ''sk-test'') world0"
  let ?q = "sp_query_zone_with_ai env_ok sp_ready ''H3'' ''How high?'' ?w1"
  have a: "sp_available sp_ready" by (simp add: sp_ready_def)
  have t: "truthy (Some ''sk-test'')" by (simp add: truthy_def)
  have o: "stdout (snd ?q) = []"
    using sp_query_env_ok(2)[of "''How high?''" ?w1] by (simp add: record_call_def world0_def)
  have m: "sp_main env_ok [''simple-pdf-processor.py'', ''H3'', ''How'', ''high?'']
             (Some ''sk-test'') world0
           = (0, print (Json (sp_response ''H3'' ''How high?'' (Some ''8 metres''))) (snd ?q))"
    using sp_query_env_ok(1)[of "''How high?''" ?w1]
    by (simp add: sp_main_def t sp_init_env_ok a Let_def case_prod_beta)
  show ?thesis by (simp add: m print_def o sp_response_def)
qed

text \<open>The retrieval script's response has exactly one of the keys result and error.\<close>

lemma ac_response_keys:
  "json_keys (ac_response zone_code query result) =
     (if truthy result then [''success'', ''zone_code'', ''query'', ''result'']
      else [''success'', ''zone_code'', ''query'', ''error''])"
  by (simp add: ac_response_def)

end
